theory Spec2Isabelle
  imports Main "HOL-Library.Word"
begin

unbundle bit_operations_syntax

section \<open>Machine integers\<close>

text \<open>
  A C++ \<^verbatim>\<open>int\<close> is a 32-bit two's-complement value and \<^verbatim>\<open>std::size_t\<close> a 64-bit
  unsigned value on the targets named in the sources (x86-64 and armv8-a). Both are
  words; \<open>sint\<close> reads an \<^verbatim>\<open>int\<close>, \<open>unat\<close> a \<^verbatim>\<open>std::size_t\<close>. Addition on
  \<^verbatim>\<open>int\<close> is the word addition: it agrees with C++ wherever C++ defines the result,
  and wraps around where signed overflow leaves it undefined.
\<close>

type_synonym cint = "32 word"
type_synonym size_t = "64 word"

section \<open>devirtualize.cpp\<close>

subsection \<open>Children\<close>

text \<open>
  \<^verbatim>\<open>get()\<close> is a non-const member function, so it is modelled with the receiver passed
  through: it returns the result together with the object as it is after the call.
\<close>

datatype AChild = AChild (AChild_payload: cint)

definition AChild_get :: "AChild \<Rightarrow> cint \<times> AChild" where
  "AChild_get this = (AChild_payload this, this)"

datatype BChild = BChild (BChild_payload: cint)

definition BChild_get :: "BChild \<Rightarrow> cint \<times> BChild" where
  "BChild_get this = (BChild_payload this + 20, this)"

text \<open>
  An object behind a \<^verbatim>\<open>BaseChild\<close> pointer is one of the two final classes; the virtual
  call dispatches on which.
\<close>

datatype BaseChild = AChild_obj AChild | BChild_obj BChild

fun BaseChild_get :: "BaseChild \<Rightarrow> cint \<times> BaseChild" where
  "BaseChild_get (AChild_obj c) = apsnd AChild_obj (AChild_get c)"
| "BaseChild_get (BChild_obj c) = apsnd BChild_obj (BChild_get c)"

subsection \<open>Parents\<close>

datatype AParent = AParent (AParent_my_payload: cint)

definition AParent_create :: "AParent \<Rightarrow> BaseChild" where
  "AParent_create this = AChild_obj (AChild (AParent_my_payload this))"

datatype BParent = BParent (BParent_my_payload: cint)

text \<open>\<^verbatim>\<open>BParent::create\<close> is written with \<^verbatim>\<open>std::make_unique<AChild>\<close>.\<close>

definition BParent_create :: "BParent \<Rightarrow> BaseChild" where
  "BParent_create this = AChild_obj (AChild (BParent_my_payload this))"

datatype BaseParent = AParent_obj AParent | BParent_obj BParent

fun BaseParent_create :: "BaseParent \<Rightarrow> BaseChild" where
  "BaseParent_create (AParent_obj p) = AParent_create p"
| "BaseParent_create (BParent_obj p) = BParent_create p"

subsection \<open>Driver\<close>

definition foo :: "AParent \<Rightarrow> cint" where
  "foo ap = (let val = AParent_create ap in fst (BaseChild_get val))"

section \<open>devirtualize\_class.cpp\<close>

subsection \<open>Core children (the same text in both snippets of the file)\<close>

datatype ACoreChild = ACoreChild (ACoreChild_payload: cint)

definition ACoreChild_get :: "ACoreChild \<Rightarrow> cint \<times> ACoreChild" where
  "ACoreChild_get this = (ACoreChild_payload this, this)"

datatype BCoreChild = BCoreChild (BCoreChild_payload: cint)

definition BCoreChild_get :: "BCoreChild \<Rightarrow> cint \<times> BCoreChild" where
  "BCoreChild_get this = (BCoreChild_payload this + 20, this)"

datatype BaseCoreChild = ACoreChild_obj ACoreChild | BCoreChild_obj BCoreChild

fun BaseCoreChild_get :: "BaseCoreChild \<Rightarrow> cint \<times> BaseCoreChild" where
  "BaseCoreChild_get (ACoreChild_obj c) = apsnd ACoreChild_obj (ACoreChild_get c)"
| "BaseCoreChild_get (BCoreChild_obj c) = apsnd BCoreChild_obj (BCoreChild_get c)"

subsection \<open>Core parents, first snippet\<close>

datatype ACoreParent = ACoreParent (ACoreParent_my_payload: cint)

definition ACoreParent_create :: "ACoreParent \<Rightarrow> BaseCoreChild" where
  "ACoreParent_create this = ACoreChild_obj (ACoreChild (ACoreParent_my_payload this))"

datatype BCoreParent = BCoreParent (BCoreParent_my_payload: cint)

definition BCoreParent_create :: "BCoreParent \<Rightarrow> BaseCoreChild" where
  "BCoreParent_create this = BCoreChild_obj (BCoreChild (BCoreParent_my_payload this))"

datatype BaseCoreParent = ACoreParent_obj ACoreParent | BCoreParent_obj BCoreParent

fun BaseCoreParent_create :: "BaseCoreParent \<Rightarrow> BaseCoreChild" where
  "BaseCoreParent_create (ACoreParent_obj p) = ACoreParent_create p"
| "BaseCoreParent_create (BCoreParent_obj p) = BCoreParent_create p"

subsection \<open>Wrappers, first snippet\<close>

text \<open>
  A \<^verbatim>\<open>std::shared_ptr\<close> either owns an object or is empty. Dereferencing an empty one
  has no defined result; the model returns the fault \<open>Null_dereference\<close> there. The
  second fault is used by the second snippet only.
\<close>

type_synonym 'a shared_ptr = "'a option"

datatype fault = Null_dereference | No_conversion

text \<open>
  A class template over \<^verbatim>\<open>Core_\<close> is a definition over a type variable that takes the
  member functions of \<^verbatim>\<open>Core_\<close> it calls as arguments. Here every instance stores a
  \<^verbatim>\<open>std::unique_ptr<BaseCoreChild>\<close>.
\<close>

record ActualWrapperChild =
  my_core_child :: BaseCoreChild

definition ActualWrapperChild_ctor :: "('core \<Rightarrow> BaseCoreChild) \<Rightarrow> 'core \<Rightarrow> ActualWrapperChild" where
  "ActualWrapperChild_ctor Core_create core_parent = \<lparr>my_core_child = Core_create core_parent\<rparr>"

definition ActualWrapperChild_wrapped_get :: "ActualWrapperChild \<Rightarrow> cint \<times> ActualWrapperChild" where
  "ActualWrapperChild_wrapped_get this =
     (case BaseCoreChild_get (my_core_child this) of
        (v, child) \<Rightarrow> (v, this\<lparr>my_core_child := child\<rparr>))"

record 'core ActualWrapperParent =
  my_core_parent :: "'core shared_ptr"

definition ActualWrapperParent_ctor :: "'core shared_ptr \<Rightarrow> 'core ActualWrapperParent" where
  "ActualWrapperParent_ctor core = \<lparr>my_core_parent = core\<rparr>"

definition ActualWrapperParent_initialize ::
    "('core \<Rightarrow> BaseCoreChild) \<Rightarrow> 'core ActualWrapperParent \<Rightarrow> fault + ActualWrapperChild" where
  "ActualWrapperParent_initialize Core_create this =
     (case my_core_parent this of
        None \<Rightarrow> Inl Null_dereference
      | Some core \<Rightarrow> Inr (ActualWrapperChild_ctor Core_create core))"

text \<open>The three instances that \<^verbatim>\<open>bar\<close> builds, seen through the wrapper interfaces.\<close>

datatype BaseWrapperChild =
    WrapperChild_Base ActualWrapperChild
  | WrapperChild_A ActualWrapperChild
  | WrapperChild_B ActualWrapperChild

fun BaseWrapperChild_wrapped_get :: "BaseWrapperChild \<Rightarrow> cint \<times> BaseWrapperChild" where
  "BaseWrapperChild_wrapped_get (WrapperChild_Base w) = apsnd WrapperChild_Base (ActualWrapperChild_wrapped_get w)"
| "BaseWrapperChild_wrapped_get (WrapperChild_A w) = apsnd WrapperChild_A (ActualWrapperChild_wrapped_get w)"
| "BaseWrapperChild_wrapped_get (WrapperChild_B w) = apsnd WrapperChild_B (ActualWrapperChild_wrapped_get w)"

datatype BaseWrapperParent =
    WrapperParent_Base "BaseCoreParent ActualWrapperParent"
  | WrapperParent_A "ACoreParent ActualWrapperParent"
  | WrapperParent_B "BCoreParent ActualWrapperParent"

fun BaseWrapperParent_initialize :: "BaseWrapperParent \<Rightarrow> fault + BaseWrapperChild" where
  "BaseWrapperParent_initialize (WrapperParent_Base w) =
     map_sum id WrapperChild_Base (ActualWrapperParent_initialize BaseCoreParent_create w)"
| "BaseWrapperParent_initialize (WrapperParent_A w) =
     map_sum id WrapperChild_A (ActualWrapperParent_initialize ACoreParent_create w)"
| "BaseWrapperParent_initialize (WrapperParent_B w) =
     map_sum id WrapperChild_B (ActualWrapperParent_initialize BCoreParent_create w)"

definition foo1 :: "BaseWrapperParent \<Rightarrow> fault + cint" where
  "foo1 wparent =
     (case BaseWrapperParent_initialize wparent of
        Inl f \<Rightarrow> Inl f
      | Inr wchild \<Rightarrow> Inr (fst (BaseWrapperChild_wrapped_get wchild)))"

definition bar1 ::
    "BaseCoreParent shared_ptr \<Rightarrow> ACoreParent shared_ptr \<Rightarrow> BCoreParent shared_ptr \<Rightarrow> fault + cint" where
  "bar1 base abase bbase =
     (let parent = ActualWrapperParent_ctor base;
          aparent = ActualWrapperParent_ctor abase;
          bparent = ActualWrapperParent_ctor bbase
      in case foo1 (WrapperParent_Base parent) of
           Inl f \<Rightarrow> Inl f
         | Inr x \<Rightarrow>
             (case foo1 (WrapperParent_A aparent) of
                Inl f \<Rightarrow> Inl f
              | Inr y \<Rightarrow>
                  (case foo1 (WrapperParent_B bparent) of
                     Inl f \<Rightarrow> Inl f
                   | Inr z \<Rightarrow> Inr (x + y + z))))"

subsection \<open>Core parents, second snippet\<close>

text \<open>
  The second snippet declares the same classes again and adds \<^verbatim>\<open>create_exact\<close>. The data
  of the parents is unchanged, so the types above are used; the member functions of the
  second snippet carry the suffix 2 where the first has one of the same name.
\<close>

definition ACoreParent_create_exact :: "ACoreParent \<Rightarrow> ACoreChild" where
  "ACoreParent_create_exact this = ACoreChild (ACoreParent_my_payload this)"

definition ACoreParent_create2 :: "ACoreParent \<Rightarrow> BaseCoreChild" where
  "ACoreParent_create2 this = ACoreChild_obj (ACoreParent_create_exact this)"

definition BCoreParent_create_exact :: "BCoreParent \<Rightarrow> BCoreChild" where
  "BCoreParent_create_exact this = BCoreChild (BCoreParent_my_payload this)"

definition BCoreParent_create2 :: "BCoreParent \<Rightarrow> BaseCoreChild" where
  "BCoreParent_create2 this = BCoreChild_obj (BCoreParent_create_exact this)"

fun BaseCoreParent_create2 :: "BaseCoreParent \<Rightarrow> BaseCoreChild" where
  "BaseCoreParent_create2 (ACoreParent_obj p) = ACoreParent_create2 p"
| "BaseCoreParent_create2 (BCoreParent_obj p) = BCoreParent_create2 p"

definition BaseCoreParent_create_exact :: "BaseCoreParent \<Rightarrow> BaseCoreChild" where
  "BaseCoreParent_create_exact this = BaseCoreParent_create2 this"

subsection \<open>Wrappers, second snippet\<close>

text \<open>
  The stored child has the type that \<^verbatim>\<open>Core_::create_exact\<close> returns, so the wrapper
  child is generic in it and \<^verbatim>\<open>wrapped_get\<close> takes that type's \<^verbatim>\<open>get\<close>.
\<close>

record 'child ActualWrapperChild2 =
  my_core_child2 :: 'child

definition ActualWrapperChild2_ctor :: "('core \<Rightarrow> 'child) \<Rightarrow> 'core \<Rightarrow> 'child ActualWrapperChild2" where
  "ActualWrapperChild2_ctor Core_create_exact core_parent =
     \<lparr>my_core_child2 = Core_create_exact core_parent\<rparr>"

definition ActualWrapperChild2_wrapped_get ::
    "('child \<Rightarrow> cint \<times> 'child) \<Rightarrow> 'child ActualWrapperChild2 \<Rightarrow> cint \<times> 'child ActualWrapperChild2" where
  "ActualWrapperChild2_wrapped_get Child_get this =
     (case Child_get (my_core_child2 this) of
        (v, child) \<Rightarrow> (v, this\<lparr>my_core_child2 := child\<rparr>))"

text \<open>
  In this snippet \<^verbatim>\<open>ActualWrapperParent<Core_>\<close> declares its member as
  \<^verbatim>\<open>std::shared_ptr<BaseCoreParent>\<close> for every \<^verbatim>\<open>Core_\<close>; the constructor converts the
  \<^verbatim>\<open>std::shared_ptr<Core_>\<close> it is given, which is the upcast passed as \<open>to_base\<close>.
\<close>

record ActualWrapperParent2 =
  my_core_parent2 :: "BaseCoreParent shared_ptr"

definition ActualWrapperParent2_ctor :: "('core \<Rightarrow> BaseCoreParent) \<Rightarrow> 'core shared_ptr \<Rightarrow> ActualWrapperParent2" where
  "ActualWrapperParent2_ctor to_base core = \<lparr>my_core_parent2 = map_option to_base core\<rparr>"

text \<open>
  \<^verbatim>\<open>initialize\<close> passes \<^verbatim>\<open>*my_core_parent\<close>, an lvalue of class \<^verbatim>\<open>BaseCoreParent\<close>, to the
  constructor of \<^verbatim>\<open>ActualWrapperChild<Core_>\<close>, whose parameter is \<^verbatim>\<open>const Core_&\<close>. The
  binding of that parameter is the argument \<open>bind_ref\<close>. C++ binds a reference to an
  object of the same class or of a derived class, never to one of a base class, and
  neither final class declares a constructor from \<^verbatim>\<open>BaseCoreParent\<close>: the binding exists
  for \<^verbatim>\<open>Core_ = BaseCoreParent\<close> only, and the other two instances of \<^verbatim>\<open>initialize\<close> are
  rejected for every object, which the model records as the fault \<open>No_conversion\<close>.
\<close>

definition bind_BaseCoreParent :: "BaseCoreParent \<Rightarrow> BaseCoreParent option" where
  "bind_BaseCoreParent base = Some base"

definition bind_ACoreParent :: "BaseCoreParent \<Rightarrow> ACoreParent option" where
  "bind_ACoreParent base = None"

definition bind_BCoreParent :: "BaseCoreParent \<Rightarrow> BCoreParent option" where
  "bind_BCoreParent base = None"

definition ActualWrapperParent2_initialize ::
    "(BaseCoreParent \<Rightarrow> 'core option) \<Rightarrow> ('core \<Rightarrow> 'child) \<Rightarrow> ActualWrapperParent2
       \<Rightarrow> fault + 'child ActualWrapperChild2" where
  "ActualWrapperParent2_initialize bind_ref Core_create_exact this =
     (case my_core_parent2 this of
        None \<Rightarrow> Inl Null_dereference
      | Some base \<Rightarrow>
          (case bind_ref base of
             None \<Rightarrow> Inl No_conversion
           | Some core \<Rightarrow> Inr (ActualWrapperChild2_ctor Core_create_exact core)))"

datatype BaseWrapperChild2 =
    WrapperChild2_Base "BaseCoreChild ActualWrapperChild2"
  | WrapperChild2_A "ACoreChild ActualWrapperChild2"
  | WrapperChild2_B "BCoreChild ActualWrapperChild2"

fun BaseWrapperChild2_wrapped_get :: "BaseWrapperChild2 \<Rightarrow> cint \<times> BaseWrapperChild2" where
  "BaseWrapperChild2_wrapped_get (WrapperChild2_Base w) =
     apsnd WrapperChild2_Base (ActualWrapperChild2_wrapped_get BaseCoreChild_get w)"
| "BaseWrapperChild2_wrapped_get (WrapperChild2_A w) =
     apsnd WrapperChild2_A (ActualWrapperChild2_wrapped_get ACoreChild_get w)"
| "BaseWrapperChild2_wrapped_get (WrapperChild2_B w) =
     apsnd WrapperChild2_B (ActualWrapperChild2_wrapped_get BCoreChild_get w)"

datatype BaseWrapperParent2 =
    WrapperParent2_Base ActualWrapperParent2
  | WrapperParent2_A ActualWrapperParent2
  | WrapperParent2_B ActualWrapperParent2

fun BaseWrapperParent2_initialize :: "BaseWrapperParent2 \<Rightarrow> fault + BaseWrapperChild2" where
  "BaseWrapperParent2_initialize (WrapperParent2_Base w) =
     map_sum id WrapperChild2_Base
       (ActualWrapperParent2_initialize bind_BaseCoreParent BaseCoreParent_create_exact w)"
| "BaseWrapperParent2_initialize (WrapperParent2_A w) =
     map_sum id WrapperChild2_A
       (ActualWrapperParent2_initialize bind_ACoreParent ACoreParent_create_exact w)"
| "BaseWrapperParent2_initialize (WrapperParent2_B w) =
     map_sum id WrapperChild2_B
       (ActualWrapperParent2_initialize bind_BCoreParent BCoreParent_create_exact w)"

definition foo2 :: "BaseWrapperParent2 \<Rightarrow> fault + cint" where
  "foo2 wparent =
     (case BaseWrapperParent2_initialize wparent of
        Inl f \<Rightarrow> Inl f
      | Inr wchild \<Rightarrow> Inr (fst (BaseWrapperChild2_wrapped_get wchild)))"

definition bar2 ::
    "BaseCoreParent shared_ptr \<Rightarrow> ACoreParent shared_ptr \<Rightarrow> BCoreParent shared_ptr \<Rightarrow> fault + cint" where
  "bar2 base abase bbase =
     (let parent = ActualWrapperParent2_ctor id base;
          aparent = ActualWrapperParent2_ctor ACoreParent_obj abase;
          bparent = ActualWrapperParent2_ctor BCoreParent_obj bbase
      in case foo2 (WrapperParent2_Base parent) of
           Inl f \<Rightarrow> Inl f
         | Inr x \<Rightarrow>
             (case foo2 (WrapperParent2_A aparent) of
                Inl f \<Rightarrow> Inl f
              | Inr y \<Rightarrow>
                  (case foo2 (WrapperParent2_B bparent) of
                     Inl f \<Rightarrow> Inl f
                   | Inr z \<Rightarrow> Inr (x + y + z))))"

section \<open>nd\_offset.cpp\<close>

text \<open>
  \<^verbatim>\<open>nd_offset<Size_>\<close> accepts arguments of any integer types and converts each to
  \<^verbatim>\<open>Size_\<close>: \<^verbatim>\<open>x1\<close> by the \<^verbatim>\<open>static_cast\<close>, the others when they are passed to a
  parameter of type \<^verbatim>\<open>Size_\<close> of \<^verbatim>\<open>nd_offset_internal<Size_>\<close>. The conversion is the
  argument \<open>conv\<close>; from \<^verbatim>\<open>int\<close> to \<^verbatim>\<open>std::size_t\<close> it is the sign extension \<open>scast\<close>.
  The parameter pack is taken two arguments at a time, an extent and a position, and
  only a pack of whole pairs has a matching overload; it is a list of pairs.
\<close>

fun nd_offset_internal :: "('b \<Rightarrow> 'a::len word) \<Rightarrow> 'b \<Rightarrow> 'b \<Rightarrow> ('b \<times> 'b) list \<Rightarrow> 'a word" where
  "nd_offset_internal conv extent pos [] = conv extent * conv pos"
| "nd_offset_internal conv extent pos ((extent2, pos2) # more_args) =
     (conv pos + nd_offset_internal conv extent2 pos2 more_args) * conv extent"

definition nd_offset :: "('b \<Rightarrow> 'a::len word) \<Rightarrow> 'b \<Rightarrow> 'b \<Rightarrow> 'b \<Rightarrow> ('b \<times> 'b) list \<Rightarrow> 'a word" where
  "nd_offset conv x1 extent1 x2 remaining = conv x1 + nd_offset_internal conv extent1 x2 remaining"

text \<open>
  The matrix behind \<^verbatim>\<open>const double* mat\<close> is the list of its elements; reading past its
  end has no defined result and is \<open>None\<close>. Only \<open>0\<close> and \<open>+\<close> of \<^verbatim>\<open>double\<close> are used,
  and nothing is assumed about them.
\<close>

definition at_index :: "'d list \<Rightarrow> size_t \<Rightarrow> 'd option" where
  "at_index mat i = (if unat i < length mat then Some (mat ! unat i) else None)"

function sum_loop :: "'d::plus list \<Rightarrow> cint \<Rightarrow> cint \<Rightarrow> cint \<Rightarrow> cint \<Rightarrow> 'd \<Rightarrow> 'd option" where
  "sum_loop mat NR NC c r val =
     (if r <s NR then
        (case at_index mat (nd_offset scast c NC r []) of
           None \<Rightarrow> None
         | Some elmt \<Rightarrow> sum_loop mat NR NC c (r + 1) (val + elmt))
      else Some val)"
  by pat_completeness auto
termination
proof (relation "measure (\<lambda>(mat, NR, NC, c, r, val). nat (sint NR - sint r))", goal_cases)
  case 1
  show ?case by simp
next
  case (2 mat NR NC c r val elmt)
  then have less: "sint r < sint NR"
    by (simp add: word_sless_alt)
  have "sint NR < 2 ^ 31" and "- (2 ^ 31) \<le> sint r"
    using sint_lt [of NR] sint_ge [of r] by simp_all
  with less have "sint (r + 1) = sint r + 1"
    by (simp add: sint_word_ariths signed_take_bit_int_eq_self)
  with less show ?case
    by simp
qed

definition sum_mat :: "'d::{zero,plus} list \<Rightarrow> cint \<Rightarrow> cint \<Rightarrow> cint \<Rightarrow> cint \<Rightarrow> 'd option" where
  "sum_mat mat NR NC r0 c = sum_loop mat NR NC c r0 0"

text \<open>
  The fold the specification describes, written from its words: for coordinates
  \<open>x1, ..., xn\<close> and extents \<open>e1, ..., e(n-1)\<close> the offset is
  \<open>x1 + e1 * (x2 + e2 * (... + e(n-1) * xn))\<close>. The list holds the pairs
  \<open>(e1, x2), (e2, x3), ...\<close>.
\<close>

fun horner_offset :: "'r::comm_semiring_0 \<Rightarrow> ('r \<times> 'r) list \<Rightarrow> 'r" where
  "horner_offset x [] = x"
| "horner_offset x ((e, y) # rest) = x + e * horner_offset y rest"

section \<open>Properties of the children\<close>

text \<open>
  C2. For every payload \<open>p\<close>, \<^verbatim>\<open>get()\<close> of a variant-A child (\<^verbatim>\<open>AChild\<close>,
  \<^verbatim>\<open>ACoreChild\<close>) constructed with \<open>p\<close> returns \<open>p\<close>, and \<^verbatim>\<open>get()\<close> of a variant-B child
  (\<^verbatim>\<open>BChild\<close>, \<^verbatim>\<open>BCoreChild\<close>) returns \<open>p + 20\<close>, called directly or through the base
  interface; read as integers, the variant-B result is \<open>sint p + 20\<close> whenever that fits
  an \<^verbatim>\<open>int\<close>. Payload 5 gives 5 on variant A and 25 on variant B.
\<close>

theorem C2_child_get_offset:
  "fst (AChild_get (AChild p)) = p
   \<and> fst (ACoreChild_get (ACoreChild p)) = p
   \<and> fst (BChild_get (BChild p)) = p + 20
   \<and> fst (BCoreChild_get (BCoreChild p)) = p + 20
   \<and> fst (BaseChild_get (AChild_obj (AChild p))) = p
   \<and> fst (BaseCoreChild_get (ACoreChild_obj (ACoreChild p))) = p
   \<and> fst (BaseChild_get (BChild_obj (BChild p))) = p + 20
   \<and> fst (BaseCoreChild_get (BCoreChild_obj (BCoreChild p))) = p + 20
   \<and> (sint p + 20 < 2 ^ 31 \<longrightarrow>
        sint (fst (BChild_get (BChild p))) = sint p + 20
        \<and> sint (fst (BCoreChild_get (BCoreChild p))) = sint p + 20)
   \<and> fst (AChild_get (AChild 5)) = 5
   \<and> fst (ACoreChild_get (ACoreChild 5)) = 5
   \<and> fst (BChild_get (BChild 5)) = 25
   \<and> fst (BCoreChild_get (BCoreChild 5)) = 25"
proof -
  have "sint (p + 20) = sint p + 20" if "sint p + 20 < 2 ^ 31"
  proof -
    have "- (2 ^ 31) \<le> sint p"
      using sint_ge [of p] by simp
    with that show ?thesis
      by (simp add: sint_word_ariths signed_take_bit_int_eq_self)
  qed
  then show ?thesis
    by (simp add: AChild_get_def BChild_get_def ACoreChild_get_def BCoreChild_get_def)
qed

text \<open>
  Witness for C2 at payload 5: the sum 25 fits an \<^verbatim>\<open>int\<close>, and both variant-B accessors
  return 25.
\<close>

theorem C2_child_get_offset_witness:
  "sint (5 :: cint) + 20 < 2 ^ 31
   \<and> sint (fst (BChild_get (BChild 5))) = 25
   \<and> sint (fst (BCoreChild_get (BCoreChild 5))) = 25
   \<and> fst (AChild_get (AChild 5)) = 5"
  using C2_child_get_offset [of 5] by simp

lemma BaseChild_get_unchanged: "snd (BaseChild_get c) = c"
  by (cases c) (simp_all add: AChild_get_def BChild_get_def)

lemma BaseCoreChild_get_unchanged: "snd (BaseCoreChild_get c) = c"
  by (cases c) (simp_all add: ACoreChild_get_def BCoreChild_get_def)

text \<open>
  C8. \<^verbatim>\<open>get()\<close> is pure: for every child variant, called directly or through the base
  interface, the object after the call is the object before it (payload included), and a
  second call returns what the first returned.
\<close>

theorem C8_get_is_pure:
  "snd (AChild_get a) = a \<and> snd (BChild_get b) = b
   \<and> snd (ACoreChild_get ac) = ac \<and> snd (BCoreChild_get bc) = bc
   \<and> snd (BaseChild_get c) = c \<and> snd (BaseCoreChild_get cc) = cc
   \<and> fst (AChild_get (snd (AChild_get a))) = fst (AChild_get a)
   \<and> fst (BChild_get (snd (BChild_get b))) = fst (BChild_get b)
   \<and> fst (ACoreChild_get (snd (ACoreChild_get ac))) = fst (ACoreChild_get ac)
   \<and> fst (BCoreChild_get (snd (BCoreChild_get bc))) = fst (BCoreChild_get bc)
   \<and> fst (BaseChild_get (snd (BaseChild_get c))) = fst (BaseChild_get c)
   \<and> fst (BaseCoreChild_get (snd (BaseCoreChild_get cc))) = fst (BaseCoreChild_get cc)"
  by (simp add: BaseChild_get_unchanged BaseCoreChild_get_unchanged
      AChild_get_def BChild_get_def ACoreChild_get_def BCoreChild_get_def)

section \<open>Properties of the parents\<close>

text \<open>
  Every parent but \<^verbatim>\<open>BParent\<close> creates the child of its own variant: the accessor of the
  created child returns the payload for variant A and the payload plus 20 for variant B,
  in both snippets of devirtualize\_class.cpp, through \<^verbatim>\<open>create\<close> and through
  \<^verbatim>\<open>create_exact\<close>.
\<close>

lemma AParent_create_get: "fst (BaseChild_get (AParent_create (AParent p))) = p"
  by (simp add: AParent_create_def AChild_get_def)

lemma ACoreParent_create_get: "fst (BaseCoreChild_get (ACoreParent_create (ACoreParent p))) = p"
  by (simp add: ACoreParent_create_def ACoreChild_get_def)

lemma BCoreParent_create_get: "fst (BaseCoreChild_get (BCoreParent_create (BCoreParent p))) = p + 20"
  by (simp add: BCoreParent_create_def BCoreChild_get_def)

lemma ACoreParent_create2_get: "fst (BaseCoreChild_get (ACoreParent_create2 (ACoreParent p))) = p"
  by (simp add: ACoreParent_create2_def ACoreParent_create_exact_def ACoreChild_get_def)

lemma BCoreParent_create2_get: "fst (BaseCoreChild_get (BCoreParent_create2 (BCoreParent p))) = p + 20"
  by (simp add: BCoreParent_create2_def BCoreParent_create_exact_def BCoreChild_get_def)

lemma ACoreParent_create_exact_get: "fst (ACoreChild_get (ACoreParent_create_exact (ACoreParent p))) = p"
  by (simp add: ACoreParent_create_exact_def ACoreChild_get_def)

lemma BCoreParent_create_exact_get: "fst (BCoreChild_get (BCoreParent_create_exact (BCoreParent p))) = p + 20"
  by (simp add: BCoreParent_create_exact_def BCoreChild_get_def)

text \<open>
  C1, at the input where the code departs from it. \<^verbatim>\<open>BParent::create\<close> in
  devirtualize.cpp constructs an \<^verbatim>\<open>AChild\<close>, so the accessor of the child it creates
  returns the payload \<open>p\<close> itself and never \<open>p + 20\<close>; for payload 5 it returns 5, not 25.
\<close>

theorem C1_BParent_create_makes_AChild:
  "BParent_create (BParent p) = AChild_obj (AChild p)
   \<and> fst (BaseChild_get (BParent_create (BParent p))) = p
   \<and> fst (BaseChild_get (BParent_create (BParent p))) \<noteq> p + 20
   \<and> fst (BaseChild_get (BParent_create (BParent 5))) = 5
   \<and> fst (BaseChild_get (BaseParent_create (BParent_obj (BParent 5)))) \<noteq> 25"
  by (simp add: BParent_create_def AChild_get_def)

text \<open>
  C7. In the second snippet \<^verbatim>\<open>create\<close> and \<^verbatim>\<open>create_exact\<close> agree on every parent: on
  \<^verbatim>\<open>ACoreParent\<close> and \<^verbatim>\<open>BCoreParent\<close> the two children have equal \<^verbatim>\<open>get()\<close> results,
  \<^verbatim>\<open>create\<close> returning the child of \<^verbatim>\<open>create_exact\<close> seen through the base interface;
  \<^verbatim>\<open>create_exact\<close> returns the final child class of its parent (\<^verbatim>\<open>ACoreChild\<close>,
  \<^verbatim>\<open>BCoreChild\<close>, as its type says) holding the parent's payload; and for a parent behind
  the \<^verbatim>\<open>BaseCoreParent\<close> interface the non-virtual \<^verbatim>\<open>create_exact\<close> returns the result of the
  virtual \<^verbatim>\<open>create\<close>.
\<close>

theorem C7_create_exact_agrees_with_create:
  "fst (BaseCoreChild_get (ACoreParent_create2 a)) = fst (ACoreChild_get (ACoreParent_create_exact a))
   \<and> fst (BaseCoreChild_get (BCoreParent_create2 b)) = fst (BCoreChild_get (BCoreParent_create_exact b))
   \<and> ACoreParent_create2 a = ACoreChild_obj (ACoreParent_create_exact a)
   \<and> BCoreParent_create2 b = BCoreChild_obj (BCoreParent_create_exact b)
   \<and> ACoreParent_create_exact (ACoreParent p) = ACoreChild p
   \<and> BCoreParent_create_exact (BCoreParent p) = BCoreChild p
   \<and> BaseCoreParent_create_exact parent = BaseCoreParent_create2 parent
   \<and> BaseCoreParent_create_exact (ACoreParent_obj a) = ACoreChild_obj (ACoreParent_create_exact a)
   \<and> BaseCoreParent_create_exact (BCoreParent_obj b) = BCoreChild_obj (BCoreParent_create_exact b)"
  by (simp add: ACoreParent_create2_def BCoreParent_create2_def ACoreParent_create_exact_def
      BCoreParent_create_exact_def BaseCoreParent_create_exact_def ACoreChild_get_def BCoreChild_get_def)

section \<open>Properties of the wrappers and the drivers\<close>

text \<open>
  What holds of the wrappers and the drivers. In devirtualize.cpp \<^verbatim>\<open>foo\<close> returns the payload of
  its \<^verbatim>\<open>AParent\<close>. In the first snippet of devirtualize\_class.cpp \<^verbatim>\<open>initialize\<close> stores
  the child that \<^verbatim>\<open>Core_::create\<close> returns, \<^verbatim>\<open>wrapped_get\<close> forwards to its \<^verbatim>\<open>get\<close>,
  \<^verbatim>\<open>foo\<close> returns \<^verbatim>\<open>initialize()->wrapped_get()\<close>, which is \<open>p\<close> for a wrapped
  \<^verbatim>\<open>ACoreParent(p)\<close> and \<open>q + 20\<close> for a wrapped \<^verbatim>\<open>BCoreParent(q)\<close>, and \<^verbatim>\<open>bar\<close> returns
  the sum of the three. In the second snippet the same holds of the instance
  \<^verbatim>\<open>Core_ = BaseCoreParent\<close> with \<^verbatim>\<open>create_exact\<close>.
\<close>

lemma foo_AParent: "foo (AParent p) = p"
  by (simp add: foo_def AParent_create_get)

lemma ActualWrapperChild_wrapped_get_forwards:
  "fst (ActualWrapperChild_wrapped_get w) = fst (BaseCoreChild_get (my_core_child w))"
  by (simp add: ActualWrapperChild_wrapped_get_def split: prod.split)

lemma ActualWrapperParent_initialize_stores_child:
  "ActualWrapperParent_initialize Core_create (ActualWrapperParent_ctor (Some core))
     = Inr \<lparr>my_core_child = Core_create core\<rparr>"
  by (simp add: ActualWrapperParent_initialize_def ActualWrapperParent_ctor_def
      ActualWrapperChild_ctor_def)

lemma foo1_is_initialize_then_wrapped_get:
  "BaseWrapperParent_initialize w = Inr wchild \<Longrightarrow>
     foo1 w = Inr (fst (BaseWrapperChild_wrapped_get wchild))"
  by (simp add: foo1_def)

lemma foo1_Base:
  "foo1 (WrapperParent_Base (ActualWrapperParent_ctor (Some base)))
     = Inr (fst (BaseCoreChild_get (BaseCoreParent_create base)))"
  by (simp add: foo1_def ActualWrapperParent_initialize_stores_child
      ActualWrapperChild_wrapped_get_forwards)

lemma foo1_A:
  "foo1 (WrapperParent_A (ActualWrapperParent_ctor (Some (ACoreParent p)))) = Inr p"
  by (simp add: foo1_def ActualWrapperParent_initialize_stores_child
      ActualWrapperChild_wrapped_get_forwards ACoreParent_create_get)

lemma foo1_B:
  "foo1 (WrapperParent_B (ActualWrapperParent_ctor (Some (BCoreParent q)))) = Inr (q + 20)"
  by (simp add: foo1_def ActualWrapperParent_initialize_stores_child
      ActualWrapperChild_wrapped_get_forwards BCoreParent_create_get)

lemma bar1_sum:
  "bar1 (Some base) (Some (ACoreParent p)) (Some (BCoreParent q))
     = Inr (fst (BaseCoreChild_get (BaseCoreParent_create base)) + p + (q + 20))"
  by (simp add: bar1_def foo1_Base foo1_A foo1_B)

lemma ActualWrapperChild2_wrapped_get_forwards:
  "fst (ActualWrapperChild2_wrapped_get Child_get w) = fst (Child_get (my_core_child2 w))"
  by (simp add: ActualWrapperChild2_wrapped_get_def split: prod.split)

lemma foo2_Base:
  "foo2 (WrapperParent2_Base (ActualWrapperParent2_ctor id (Some base)))
     = Inr (fst (BaseCoreChild_get (BaseCoreParent_create_exact base)))"
  by (simp add: foo2_def ActualWrapperParent2_initialize_def ActualWrapperParent2_ctor_def
      ActualWrapperChild2_ctor_def bind_BaseCoreParent_def ActualWrapperChild2_wrapped_get_forwards)

text \<open>
  C5, at the input where the code departs from it. In the second snippet
  \<^verbatim>\<open>ActualWrapperParent<Core_>\<close> holds a \<^verbatim>\<open>std::shared_ptr<BaseCoreParent>\<close> (the first
  snippet holds a \<^verbatim>\<open>std::shared_ptr<Core_>\<close>), and \<^verbatim>\<open>initialize\<close> passes the object behind
  it to a constructor that takes \<^verbatim>\<open>const Core_&\<close>. For \<^verbatim>\<open>Core_ = ACoreParent\<close> and
  \<^verbatim>\<open>Core_ = BCoreParent\<close> no such conversion exists, so \<^verbatim>\<open>initialize\<close> yields no wrapper
  child for any wrapped parent, payload 5 included, and nothing calls \<^verbatim>\<open>create_exact\<close> of
  the final classes.
\<close>

theorem C5_second_snippet_wrapper_not_constructed:
  "BaseWrapperParent2_initialize (WrapperParent2_A (ActualWrapperParent2_ctor ACoreParent_obj (Some (ACoreParent 5))))
     = Inl No_conversion
   \<and> BaseWrapperParent2_initialize (WrapperParent2_B (ActualWrapperParent2_ctor BCoreParent_obj (Some (BCoreParent 5))))
     = Inl No_conversion
   \<and> BaseWrapperParent2_initialize (WrapperParent2_A (ActualWrapperParent2_ctor ACoreParent_obj (Some a)))
     \<noteq> Inr wchild
   \<and> BaseWrapperParent2_initialize (WrapperParent2_B (ActualWrapperParent2_ctor BCoreParent_obj (Some b)))
     \<noteq> Inr wchild"
  by (simp add: ActualWrapperParent2_initialize_def ActualWrapperParent2_ctor_def
      bind_ACoreParent_def bind_BCoreParent_def)

text \<open>
  C6, at the input where the code departs from it. For the same reason \<^verbatim>\<open>foo\<close> of the
  second snippet has no result on the wrappers of an \<^verbatim>\<open>ACoreParent\<close> or a \<^verbatim>\<open>BCoreParent\<close>,
  and \<^verbatim>\<open>bar\<close> of the second snippet has none for any three parents: its last two addends
  are not \<open>p\<close> and \<open>q + 20\<close>.
\<close>

theorem C6_second_snippet_bar_has_no_result:
  "foo2 (WrapperParent2_A (ActualWrapperParent2_ctor ACoreParent_obj (Some (ACoreParent 2)))) = Inl No_conversion
   \<and> foo2 (WrapperParent2_B (ActualWrapperParent2_ctor BCoreParent_obj (Some (BCoreParent 3)))) = Inl No_conversion
   \<and> bar2 (Some (ACoreParent_obj (ACoreParent 1))) (Some (ACoreParent 2)) (Some (BCoreParent 3))
       = Inl No_conversion
   \<and> bar2 (Some base) (Some (ACoreParent p)) (Some (BCoreParent q)) = Inl No_conversion"
proof -
  have a: "foo2 (WrapperParent2_A (ActualWrapperParent2_ctor ACoreParent_obj (Some x))) = Inl No_conversion"
    for x
    by (simp add: foo2_def ActualWrapperParent2_initialize_def ActualWrapperParent2_ctor_def
        bind_ACoreParent_def)
  have b: "foo2 (WrapperParent2_B (ActualWrapperParent2_ctor BCoreParent_obj (Some y))) = Inl No_conversion"
    for y
    by (simp add: foo2_def ActualWrapperParent2_initialize_def ActualWrapperParent2_ctor_def
        bind_BCoreParent_def)
  have "bar2 (Some parent) (Some x) (Some y) = Inl No_conversion" for parent x y
    by (simp add: bar2_def foo2_Base a)
  with a b show ?thesis
    by simp
qed

section \<open>Properties of nd\_offset\<close>

lemma nd_offset_internal_horner:
  "conv x + nd_offset_internal conv e y rest
     = horner_offset (conv x) ((conv e, conv y) # map (map_prod conv conv) rest)"
  by (induction rest arbitrary: x e y) (auto simp: algebra_simps)

lemma uint_horner_offset:
  "uint (horner_offset (w :: 'a::len word) ws)
     = horner_offset (uint w) (map (map_prod uint uint) ws) mod 2 ^ LENGTH('a)"
proof (induction w ws rule: horner_offset.induct)
  case (1 x)
  show ?case by (simp add: uint_word_ariths)
next
  case (2 x e y rest)
  let ?m = "2 ^ LENGTH('a) :: int"
  let ?H = "horner_offset (uint y) (map (map_prod uint uint) rest)"
  have "uint (x + e * horner_offset y rest)
      = (uint x + uint e * uint (horner_offset y rest) mod ?m) mod ?m"
    by (simp only: uint_word_ariths)
  also have "\<dots> = (uint x + uint e * (?H mod ?m) mod ?m) mod ?m"
    by (simp only: "2.IH")
  also have "\<dots> = (uint x + uint e * ?H) mod ?m"
    by (simp only: mod_mult_right_eq mod_add_right_eq)
  finally show ?case by simp
qed

lemma horner_map_scast:
  fixes x :: "'b::len word" and xs :: "('b word \<times> 'b word) list"
  shows "horner_offset (scast x :: 'a::len word) (map (map_prod scast scast) xs)
     = word_of_int (horner_offset (sint x) (map (map_prod sint sint) xs))"
proof (induction xs arbitrary: x)
  case Nil
  show ?case by simp
next
  case (Cons p xs)
  obtain e y where p: "p = (e, y)"
    by (cases p)
  show ?case
    using Cons.IH [of y] by (simp add: p)
qed

lemma nd_offset_scast_word_of_int:
  fixes s1 :: "'b::len word"
  shows "(nd_offset scast s1 f1 s2 srem :: 'a::len word)
     = word_of_int (horner_offset (sint s1) ((sint f1, sint s2) # map (map_prod sint sint) srem))"
proof -
  have "(nd_offset scast s1 f1 s2 srem :: 'a word)
      = horner_offset (scast s1) (map (map_prod scast scast) ((f1, s2) # srem))"
    by (simp add: nd_offset_def nd_offset_internal_horner)
  also have "\<dots> = word_of_int (horner_offset (sint s1) (map (map_prod sint sint) ((f1, s2) # srem)))"
    by (rule horner_map_scast)
  finally show ?thesis by simp
qed

lemma uint_nd_offset_scast:
  fixes s1 :: "'b::len word"
  shows "uint (nd_offset scast s1 f1 s2 srem :: 'a::len word)
     = horner_offset (sint s1) ((sint f1, sint s2) # map (map_prod sint sint) srem) mod 2 ^ LENGTH('a)"
  unfolding nd_offset_scast_word_of_int by (rule uint_word_of_int)

lemma uint_nd_offset_conv:
  "uint (nd_offset conv x1 e1 x2 remaining :: 'a::len word)
     = horner_offset (uint (conv x1))
         ((uint (conv e1), uint (conv x2)) # map (map_prod (uint \<circ> conv) (uint \<circ> conv)) remaining)
       mod 2 ^ LENGTH('a)"
  unfolding nd_offset_def nd_offset_internal_horner uint_horner_offset
  by (simp add: map_prod.comp)

text \<open>
  C3. \<^verbatim>\<open>nd_offset\<close> is the Horner fold of its converted arguments, in the arithmetic of
  \<^verbatim>\<open>Size_\<close>: with two dimensions \<open>nd_offset(x1, e1, x2) = x1 + x2 * e1\<close>, with three
  \<open>x1 + e1 * (x2 + e2 * x3)\<close>, and for every longer argument list
  \<open>x1 + e1 * (x2 + e2 * (... + e(n-1) * xn))\<close>, which is \<open>horner_offset\<close>. In particular
  \<open>nd_offset(2, 5, 3) = 17\<close>. For signed arguments whose integer Horner fold is not
  negative and fits \<^verbatim>\<open>Size_\<close>, the result read as an integer is that fold.
\<close>

theorem C3_nd_offset_horner:
  "nd_offset conv x1 e1 x2 [] = conv x1 + conv x2 * conv e1
   \<and> nd_offset conv x1 e1 x2 [(e2, x3)] = conv x1 + conv e1 * (conv x2 + conv e2 * conv x3)
   \<and> nd_offset conv x1 e1 x2 remaining
       = horner_offset (conv x1) ((conv e1, conv x2) # map (map_prod conv conv) remaining)
   \<and> nd_offset scast (2 :: cint) 5 3 [] = (17 :: size_t)
   \<and> (0 \<le> horner_offset (sint s1) ((sint f1, sint s2) # map (map_prod sint sint) srem)
        \<and> horner_offset (sint s1) ((sint f1, sint s2) # map (map_prod sint sint) srem) < 2 ^ LENGTH('a)
      \<longrightarrow> uint (nd_offset scast s1 f1 s2 srem :: 'a::len word)
          = horner_offset (sint s1) ((sint f1, sint s2) # map (map_prod sint sint) srem))"
proof -
  have fits: "uint (nd_offset scast s1 f1 s2 srem :: 'a word)
      = horner_offset (sint s1) ((sint f1, sint s2) # map (map_prod sint sint) srem)"
    if "0 \<le> horner_offset (sint s1) ((sint f1, sint s2) # map (map_prod sint sint) srem)"
      and "horner_offset (sint s1) ((sint f1, sint s2) # map (map_prod sint sint) srem) < 2 ^ LENGTH('a)"
    using that by (simp only: uint_nd_offset_scast mod_pos_pos_trivial)
  show ?thesis
    using fits by (simp add: nd_offset_def nd_offset_internal_horner algebra_simps)
qed

text \<open>
  Witness for C3: \<open>2 + 5 * 3 = 17\<close> fits \<^verbatim>\<open>std::size_t\<close>, and
  \<open>nd_offset<std::size_t>(2, 5, 3)\<close> read as an integer is 17.
\<close>

theorem C3_nd_offset_horner_witness:
  "0 \<le> horner_offset (sint (2 :: cint)) [(sint (5 :: cint), sint (3 :: cint))]
   \<and> horner_offset (sint (2 :: cint)) [(sint (5 :: cint), sint (3 :: cint))] < 2 ^ 64
   \<and> uint (nd_offset scast (2 :: cint) 5 3 [] :: size_t) = 17"
proof -
  note C3_nd_offset_horner [of "scast :: cint \<Rightarrow> size_t" 0 0 0 0 0 "[]" "2 :: cint" 5 3 "[]", where ?'a = 64]
  then have "0 \<le> horner_offset (sint (2 :: cint)) [(sint (5 :: cint), sint (3 :: cint))]
      \<and> horner_offset (sint (2 :: cint)) [(sint (5 :: cint), sint (3 :: cint))] < 2 ^ 64
    \<longrightarrow> uint (nd_offset scast (2 :: cint) 5 3 [] :: size_t)
        = horner_offset (sint (2 :: cint)) [(sint (5 :: cint), sint (3 :: cint))]"
    by simp
  then show ?thesis
    by simp
qed

text \<open>
  C10. \<^verbatim>\<open>nd_offset<Size_>\<close> converts every argument to \<^verbatim>\<open>Size_\<close> and then adds and
  multiplies modulo \<open>2 ^ w\<close>, \<open>w\<close> the width of \<^verbatim>\<open>Size_\<close>: read as an integer, its result
  is the Horner fold of the converted arguments modulo \<open>2 ^ w\<close>, and for signed arguments
  it is the Horner fold of their signed values modulo \<open>2 ^ w\<close>. A negative argument is
  no error: \<open>nd_offset<std::size_t>(-1, 5, 3)\<close> is 14, and the index
  \<open>nd_offset<std::size_t>(-1, 2, 0)\<close> that \<^verbatim>\<open>sum\<close> would compute for column -1 is
  \<open>2 ^ 64 - 1\<close>. The arithmetic is that of \<^verbatim>\<open>std::size_t\<close>, not of \<^verbatim>\<open>int\<close>:
  \<open>nd_offset<std::size_t>(0, 65536, 65536)\<close> is \<open>2 ^ 32\<close>.
\<close>

theorem C10_nd_offset_modular:
  "uint (nd_offset conv x1 e1 x2 remaining :: 'a::len word)
     = horner_offset (uint (conv x1))
         ((uint (conv e1), uint (conv x2)) # map (map_prod (uint \<circ> conv) (uint \<circ> conv)) remaining)
       mod 2 ^ LENGTH('a)
   \<and> uint (nd_offset scast s1 f1 s2 srem :: 'a word)
     = horner_offset (sint s1) ((sint f1, sint s2) # map (map_prod sint sint) srem) mod 2 ^ LENGTH('a)
   \<and> uint (nd_offset scast s1 f1 s2 [] :: 'a word) = (sint s1 + sint f1 * sint s2) mod 2 ^ LENGTH('a)
   \<and> nd_offset scast (- 1 :: cint) 5 3 [] = (14 :: size_t)
   \<and> nd_offset scast (- 1 :: cint) 2 0 [] = (18446744073709551615 :: size_t)
   \<and> nd_offset scast (0 :: cint) 65536 65536 [] = (4294967296 :: size_t)"
proof -
  have c: "uint (nd_offset scast s1 f1 s2 [] :: 'a word) = (sint s1 + sint f1 * sint s2) mod 2 ^ LENGTH('a)"
    using uint_nd_offset_scast [of s1 f1 s2 "[]", where ?'a = 'a] by simp
  have d: "nd_offset scast (- 1 :: cint) 5 3 [] = (14 :: size_t)"
    "nd_offset scast (- 1 :: cint) 2 0 [] = (18446744073709551615 :: size_t)"
    "nd_offset scast (0 :: cint) 65536 65536 [] = (4294967296 :: size_t)"
    by (simp_all add: nd_offset_def)
  show ?thesis
    by (intro conjI) (rule uint_nd_offset_conv uint_nd_offset_scast c d)+
qed

section \<open>Properties of sum\<close>

lemma sint_succ_below:
  fixes r NR :: cint
  assumes "r <s NR"
  shows "sint (r + 1) = sint r + 1"
proof -
  from assms have less: "sint r < sint NR"
    by (simp add: word_sless_alt)
  have "sint NR < 2 ^ 31" and "- (2 ^ 31) \<le> sint r"
    using sint_lt [of NR] sint_ge [of r] by simp_all
  with less show ?thesis
    by (simp add: sint_word_ariths signed_take_bit_int_eq_self)
qed

lemma unat_nd_offset_2d:
  fixes c NC r :: cint
  assumes "0 \<le> sint c" "0 \<le> sint NC" "0 \<le> sint r"
  shows "unat (nd_offset scast c NC r [] :: size_t) = nat (sint c) + nat (sint r) * nat (sint NC)"
proof -
  have bc: "sint c < 2 ^ 31" and bn: "sint NC < 2 ^ 31" and br: "sint r < 2 ^ 31"
    using sint_lt [of c] sint_lt [of NC] sint_lt [of r] by simp_all
  have "sint NC * sint r < 2 ^ 31 * 2 ^ 31"
    using assms bn br by (intro mult_strict_mono) simp_all
  then have small: "sint c + sint NC * sint r < 2 ^ 64"
    using bc by simp
  have nonneg: "0 \<le> sint c + sint NC * sint r"
    using assms by simp
  have "uint (nd_offset scast c NC r [] :: size_t) = (sint c + sint NC * sint r) mod 2 ^ 64"
    using uint_nd_offset_scast [of c NC r "[]", where ?'a = 64] by simp
  also have "\<dots> = sint c + sint NC * sint r"
    using small nonneg by (rule_tac mod_pos_pos_trivial)
  finally have "unat (nd_offset scast c NC r [] :: size_t) = nat (sint c + sint NC * sint r)"
    by (simp only: unat_eq_nat_uint)
  also have "\<dots> = nat (sint c) + nat (sint r) * nat (sint NC)"
    using assms by (simp add: nat_add_distrib nat_mult_distrib mult.commute)
  finally show ?thesis .
qed

lemma at_index_in_matrix:
  fixes c NC r NR :: cint
  assumes c: "0 \<le> sint c" "sint c < sint NC" and r: "0 \<le> sint r" "sint r < sint NR"
    and len: "sint NR * sint NC \<le> int (length mat)"
  shows "at_index mat (nd_offset scast c NC r [])
    = Some (mat ! (nat (sint c) + nat (sint r) * nat (sint NC)))"
proof -
  have idx: "unat (nd_offset scast c NC r [] :: size_t) = nat (sint c) + nat (sint r) * nat (sint NC)"
    using c r by (intro unat_nd_offset_2d) simp_all
  have "sint c + sint r * sint NC < (sint r + 1) * sint NC"
    using c by (simp add: algebra_simps)
  also have "\<dots> \<le> sint NR * sint NC"
    using c r by (intro mult_right_mono) simp_all
  finally have "sint c + sint r * sint NC < int (length mat)"
    using len by simp
  moreover have "int (nat (sint c) + nat (sint r) * nat (sint NC)) = sint c + sint r * sint NC"
    using c r by simp
  ultimately have "nat (sint c) + nat (sint r) * nat (sint NC) < length mat"
    by linarith
  with idx show ?thesis
    by (simp add: at_index_def)
qed

lemma sum_loop_fold:
  fixes c NC r NR :: cint
  assumes "0 \<le> sint c" "sint c < sint NC" "0 \<le> sint r"
    and "sint NR * sint NC \<le> int (length mat)"
  shows "sum_loop mat NR NC c r val
    = Some (foldl (+) val
        (map (\<lambda>k. mat ! (nat (sint c) + k * nat (sint NC))) [nat (sint r) ..< nat (sint NR)]))"
  using assms
proof (induction mat NR NC c r val rule: sum_loop.induct)
  case (1 mat NR NC c r val)
  show ?case
  proof (cases "r <s NR")
    case False
    then have "sint NR \<le> sint r"
      by (simp add: word_sless_alt)
    then have empty: "[nat (sint r) ..< nat (sint NR)] = []"
      by simp
    from False have "sum_loop mat NR NC c r val = Some val"
      by (subst sum_loop.simps) simp
    then show ?thesis
      by (simp only: empty list.map foldl_Nil)
  next
    case True
    then have less: "sint r < sint NR"
      by (simp add: word_sless_alt)
    have succ: "sint (r + 1) = sint r + 1"
      using True by (rule sint_succ_below)
    let ?elmt = "mat ! (nat (sint c) + nat (sint r) * nat (sint NC))"
    have read: "at_index mat (nd_offset scast c NC r []) = Some ?elmt"
      using "1.prems" less by (intro at_index_in_matrix) simp_all
    have "sum_loop mat NR NC c (r + 1) (val + ?elmt)
      = Some (foldl (+) (val + ?elmt)
          (map (\<lambda>k. mat ! (nat (sint c) + k * nat (sint NC))) [nat (sint (r + 1)) ..< nat (sint NR)]))"
      using True read "1.prems" succ by (intro "1.IH") simp_all
    moreover have "[nat (sint r) ..< nat (sint NR)] = nat (sint r) # [nat (sint (r + 1)) ..< nat (sint NR)]"
      using less "1.prems"(3) succ by (simp add: upt_conv_Cons nat_add_distrib)
    ultimately show ?thesis
      using True read by (subst sum_loop.simps) simp
  qed
qed

text \<open>
  C4. For a matrix of at least \<open>NR * NC\<close> elements, \<open>0 \<le> c < NC\<close> and \<open>0 \<le> r0\<close>,
  \<^verbatim>\<open>sum(mat, NR, NC, r0, c)\<close> returns the elements \<open>mat[c + r * NC]\<close> for \<open>r\<close> from \<open>r0\<close>
  up to \<open>NR - 1\<close>, added from left to right to the initial 0. When \<open>r0 \<ge> NR\<close> the loop
  body never runs and the result is 0, whatever the other arguments are.
\<close>

theorem C4_sum_is_column_sum:
  fixes c NC r0 NR :: cint and mat :: "'d::{zero,plus} list"
  shows "(0 \<le>s c \<and> c <s NC \<and> 0 \<le>s r0 \<and> sint NR * sint NC \<le> int (length mat) \<longrightarrow>
      sum_mat mat NR NC r0 c
        = Some (foldl (+) 0
            (map (\<lambda>r. mat ! (nat (sint c) + r * nat (sint NC))) [nat (sint r0) ..< nat (sint NR)])))
    \<and> (NR \<le>s r0 \<longrightarrow> sum_mat mat NR NC r0 c = Some 0)"
proof (intro conjI impI)
  assume "0 \<le>s c \<and> c <s NC \<and> 0 \<le>s r0 \<and> sint NR * sint NC \<le> int (length mat)"
  then show "sum_mat mat NR NC r0 c
        = Some (foldl (+) 0
            (map (\<lambda>r. mat ! (nat (sint c) + r * nat (sint NC))) [nat (sint r0) ..< nat (sint NR)]))"
    unfolding sum_mat_def by (intro sum_loop_fold) (simp_all add: word_sle_eq word_sless_alt)
next
  assume "NR \<le>s r0"
  then have "\<not> r0 <s NR"
    by (simp add: word_sle_eq word_sless_alt)
  then show "sum_mat mat NR NC r0 c = Some 0"
    unfolding sum_mat_def by (subst sum_loop.simps) simp
qed

text \<open>
  Witness for C4: the 3 by 2 matrix \<open>1, ..., 6\<close>, column 1 from row 0 sums to
  \<open>2 + 4 + 6 = 12\<close>, and from row 3 the sum is 0.
\<close>

theorem C4_sum_is_column_sum_witness:
  "0 \<le>s (1 :: cint) \<and> (1 :: cint) <s 2 \<and> 0 \<le>s (0 :: cint)
   \<and> sint (3 :: cint) * sint (2 :: cint) \<le> int (length [1, 2, 3, 4, 5, 6 :: int])
   \<and> sum_mat [1, 2, 3, 4, 5, 6 :: int] 3 2 0 1 = Some 12
   \<and> (3 :: cint) \<le>s 3
   \<and> sum_mat [1, 2, 3, 4, 5, 6 :: int] 3 2 3 1 = Some 0"
proof -
  have pre: "0 \<le>s (1 :: cint) \<and> (1 :: cint) <s 2 \<and> 0 \<le>s (0 :: cint)
      \<and> sint (3 :: cint) * sint (2 :: cint) \<le> int (length [1, 2, 3, 4, 5, 6 :: int])"
    by (simp add: word_sle_eq word_sless_alt)
  have stop: "(3 :: cint) \<le>s 3"
    by (simp add: word_sle_eq)
  have upt: "[0 ..< 3] = [0, 1, 2 :: nat]"
    by (simp add: upt_rec)
  from C4_sum_is_column_sum [of 1 2 0 3 "[1, 2, 3, 4, 5, 6 :: int]"] pre
  have "sum_mat [1, 2, 3, 4, 5, 6 :: int] 3 2 0 1 = Some 12"
    by (simp add: upt)
  moreover from C4_sum_is_column_sum [of 1 2 3 3 "[1, 2, 3, 4, 5, 6 :: int]"] stop
  have "sum_mat [1, 2, 3, 4, 5, 6 :: int] 3 2 3 1 = Some 0"
    by simp
  ultimately show ?thesis
    using pre stop by simp
qed

text \<open>
  C9. Under the same preconditions every index \<open>nd_offset<std::size_t>(c, NC, r)\<close> that the
  loop computes, for \<open>r\<close> from \<open>r0\<close> up to \<open>NR - 1\<close>, is below the length of the matrix,
  so every read succeeds and \<^verbatim>\<open>sum\<close> returns a value: the out-of-bounds branch of the
  model is never taken.
\<close>

theorem C9_sum_reads_in_bounds:
  fixes c NC r0 NR :: cint and mat :: "'d::{zero,plus} list"
  assumes "0 \<le>s c" "c <s NC" "0 \<le>s r0" "sint NR * sint NC \<le> int (length mat)"
  shows "(\<forall>r. r0 \<le>s r \<and> r <s NR \<longrightarrow>
           unat (nd_offset scast c NC r [] :: size_t) < length mat
           \<and> at_index mat (nd_offset scast c NC r []) \<noteq> None)
     \<and> sum_mat mat NR NC r0 c \<noteq> None"
proof -
  have c: "0 \<le> sint c" "sint c < sint NC" and r0: "0 \<le> sint r0"
    using assms by (simp_all add: word_sle_eq word_sless_alt)
  have "unat (nd_offset scast c NC r [] :: size_t) < length mat
      \<and> at_index mat (nd_offset scast c NC r []) \<noteq> None"
    if "r0 \<le>s r \<and> r <s NR" for r
  proof -
    from that r0 have r: "0 \<le> sint r" "sint r < sint NR"
      by (simp_all add: word_sle_eq word_sless_alt)
    have "at_index mat (nd_offset scast c NC r [])
      = Some (mat ! (nat (sint c) + nat (sint r) * nat (sint NC)))"
      using c r assms(4) by (rule at_index_in_matrix)
    then show ?thesis
      by (auto simp: at_index_def split: if_splits)
  qed
  moreover have "sum_mat mat NR NC r0 c \<noteq> None"
    unfolding sum_mat_def using sum_loop_fold [OF c r0 assms(4), of 0] by simp
  ultimately show ?thesis
    by blast
qed

text \<open>
  Witness for C9: the same matrix and column, and the read at the last row \<open>r = 2\<close>.
\<close>

theorem C9_sum_reads_in_bounds_witness:
  "0 \<le>s (1 :: cint) \<and> (1 :: cint) <s 2 \<and> 0 \<le>s (0 :: cint)
   \<and> sint (3 :: cint) * sint (2 :: cint) \<le> int (length [1, 2, 3, 4, 5, 6 :: int])
   \<and> (0 :: cint) \<le>s 2 \<and> (2 :: cint) <s 3
   \<and> unat (nd_offset scast (1 :: cint) 2 2 [] :: size_t) < length [1, 2, 3, 4, 5, 6 :: int]
   \<and> at_index [1, 2, 3, 4, 5, 6 :: int] (nd_offset scast (1 :: cint) 2 2 []) \<noteq> None
   \<and> sum_mat [1, 2, 3, 4, 5, 6 :: int] 3 2 0 1 \<noteq> None"
proof -
  have pre: "0 \<le>s (1 :: cint)" "(1 :: cint) <s 2" "0 \<le>s (0 :: cint)"
      "sint (3 :: cint) * sint (2 :: cint) \<le> int (length [1, 2, 3, 4, 5, 6 :: int])"
    by (simp_all add: word_sle_eq word_sless_alt)
  have r: "(0 :: cint) \<le>s 2 \<and> (2 :: cint) <s 3"
    by (simp add: word_sle_eq word_sless_alt)
  note bounds = C9_sum_reads_in_bounds [OF pre]
  from bounds r have "unat (nd_offset scast (1 :: cint) 2 2 [] :: size_t) < length [1, 2, 3, 4, 5, 6 :: int]
      \<and> at_index [1, 2, 3, 4, 5, 6 :: int] (nd_offset scast (1 :: cint) 2 2 []) \<noteq> None"
    by blast
  moreover from bounds have "sum_mat [1, 2, 3, 4, 5, 6 :: int] 3 2 0 1 \<noteq> None"
    by blast
  ultimately show ?thesis
    using pre r by blast
qed

end
